theory Spec2Isabelle
  imports Main "HOL-Library.Sublist"
begin

section \<open>JavaScript values\<close>

text \<open>
  The adapter is JavaScript. A value that may be \<^verbatim>\<open>undefined\<close> or \<^verbatim>\<open>null\<close> is an
  \<open>option\<close>; an object whose keys matter is an association list in insertion order
  (the order \<^verbatim>\<open>Object.keys\<close> and \<^verbatim>\<open>JSON.stringify\<close> see); a thrown exception is
  the \<open>Inl\<close> side of a sum.
\<close>

datatype json =
    JNull
  | JBool bool
  | JNum int
  | JStr string
  | JArr "json list"
  | JObj "(string \<times> json) list"

type_synonym js_object = "(string \<times> json) list"

datatype js_error = TypeError

text \<open>Property assignment \<^verbatim>\<open>obj[k] = v\<close>: an existing key keeps its place.\<close>

fun js_set :: "string \<Rightarrow> 'v \<Rightarrow> (string \<times> 'v) list \<Rightarrow> (string \<times> 'v) list" where
  "js_set k v [] = [(k, v)]"
| "js_set k v ((k', v') # kvs) =
     (if k' = k then (k, v) # kvs else (k', v') # js_set k v kvs)"

text \<open>\<^verbatim>\<open>s.startsWith(p)\<close>.\<close>

definition startsWith :: "string \<Rightarrow> string \<Rightarrow> bool" where
  "startsWith s p = (take (length p) s = p)"

text \<open>Truthiness of a value that is a string or undefined: the empty string is falsy.\<close>

definition truthy_string :: "string option \<Rightarrow> bool" where
  "truthy_string s = (case s of None \<Rightarrow> False | Some t \<Rightarrow> t \<noteq> [])"

text \<open>\<^verbatim>\<open>Array.prototype.toString\<close> on an array of strings: the elements joined by commas.\<close>

fun array_toString :: "string list \<Rightarrow> string" where
  "array_toString [] = []"
| "array_toString [x] = x"
| "array_toString (x # y # ys) = x @ '','' @ array_toString (y # ys)"

section \<open>Payload framing\<close>

text \<open>The notification handed to \<^verbatim>\<open>send\<close>: \<^verbatim>\<open>data.data\<close> and \<^verbatim>\<open>data.expirationTime\<close>.\<close>

record push_data =
  data :: json
  expirationTime :: "int option"

text \<open>
  What the adapter imports and does not define: \<^verbatim>\<open>APNS.generateNotification(..).compile()\<close>,
  \<^verbatim>\<open>GCM.generateGCMPayload\<close> and \<^verbatim>\<open>utils.randomString\<close> of parse-server-push-adapter,
  \<^verbatim>\<open>Date.now()\<close> and \<^verbatim>\<open>JSON.stringify\<close>. They are parameters of the model; one value
  of \<open>libs\<close> is one run of the program (one clock reading, one random source).
\<close>

record libs =
  apns_compile :: "json \<Rightarrow> int option \<Rightarrow> json"
  generateGCMPayload :: "json \<Rightarrow> string \<Rightarrow> int \<Rightarrow> int option \<Rightarrow> js_object"
  randomString :: "nat \<Rightarrow> string"
  date_now :: int
  json_stringify :: "json \<Rightarrow> string"

text \<open>\<^verbatim>\<open>SNSPushAdapter.generateiOSPayload\<close> (lines 65-80).\<close>

definition generateiOSPayload :: "libs \<Rightarrow> push_data \<Rightarrow> bool \<Rightarrow> js_object" where
  "generateiOSPayload L d production =
     (let prefix = (if production then ''APNS'' else ''APNS_SANDBOX'');
          notification = apns_compile L (data d) (expirationTime d);
          payload = js_set prefix notification [];
          payload = js_set ''default'' (JStr ''sns'') payload
      in payload)"

text \<open>
  \<^verbatim>\<open>SNSPushAdapter.generateAndroidPayload\<close> (lines 82-92). \<^verbatim>\<open>pushId || ..\<close> and
  \<^verbatim>\<open>timeStamp || ..\<close> take the default for every falsy argument: an absent one, the empty
  string, the number 0.
\<close>

definition effective_pushId :: "libs \<Rightarrow> string option \<Rightarrow> string" where
  "effective_pushId L pushId =
     (case pushId of
        Some p \<Rightarrow> if p \<noteq> [] then p else randomString L 10
      | None \<Rightarrow> randomString L 10)"

definition effective_timeStamp :: "libs \<Rightarrow> int option \<Rightarrow> int" where
  "effective_timeStamp L timeStamp =
     (case timeStamp of
        Some t \<Rightarrow> if t \<noteq> 0 then t else date_now L
      | None \<Rightarrow> date_now L)"

definition androidInnerPayload :: "libs \<Rightarrow> push_data \<Rightarrow> string \<Rightarrow> int \<Rightarrow> js_object" where
  "androidInnerPayload L d pushId timeStamp =
     js_set ''default'' (JStr ''sns'')
       (generateGCMPayload L (data d) pushId timeStamp (expirationTime d))"

definition generateAndroidPayload ::
  "libs \<Rightarrow> push_data \<Rightarrow> string option \<Rightarrow> int option \<Rightarrow> js_object" where
  "generateAndroidPayload L d pushId timeStamp =
     (let pushId = effective_pushId L pushId;
          timeStamp = effective_timeStamp L timeStamp;
          payload = androidInnerPayload L d pushId timeStamp
      in [(''GCM'', JStr (json_stringify L (JObj payload)))])"

section \<open>The messaging provider\<close>

text \<open>
  The device record the caller supplies. \<^verbatim>\<open>deviceToken\<close> is an option because
  \<^verbatim>\<open>send\<close> may overwrite it with \<^verbatim>\<open>topicArn\<close>, which can be absent.
\<close>

record installation =
  deviceType :: string
  deviceToken :: "string option"
  appIdentifier :: "string option"
  topicArn :: "string option"

record aws_error =
  err_message :: string
  stack :: "string option"

record create_params =
  PlatformApplicationArn :: "string option"
  Token :: "string option"

record endpoint_data =
  EndpointArn :: "string option"

text \<open>\<^verbatim>\<open>{ Attributes: { Enabled: .. }, EndpointArn: .. }\<close>.\<close>

record attribute_params =
  Attributes_Enabled :: string
  params_EndpointArn :: "string option"

record publish_params =
  Message :: string
  MessageStructure :: string
  TargetArn :: "string option"
  TopicArn :: "string option"

datatype sns_call =
    CreatePlatformEndpoint create_params
  | SetEndpointAttributes attribute_params
  | Publish publish_params

text \<open>
  The arguments \<^verbatim>\<open>(err, data)\<close> a provider call hands to its callback. The AWS
  client is not part of the adapter: it is a parameter giving the callback arguments for
  each request. Every request is taken to call back once; the functions below return the
  requests issued together with the state each promise ends in. The requests of one
  device stand in program order; requests of different devices are listed device after
  device, although JavaScript interleaves them.
\<close>

type_synonym 'd aws_response = "aws_error option \<times> 'd option"

record sns_client =
  createPlatformEndpoint :: "create_params \<Rightarrow> endpoint_data aws_response"
  setEndpointAttributes :: "attribute_params \<Rightarrow> js_object aws_response"
  publish :: "publish_params \<Rightarrow> js_object aws_response"

fun is_publish :: "sns_call \<Rightarrow> bool" where
  "is_publish (Publish _) = True"
| "is_publish _ = False"

fun is_create :: "sns_call \<Rightarrow> bool" where
  "is_create (CreatePlatformEndpoint _) = True"
| "is_create _ = False"

fun is_enable :: "sns_call \<Rightarrow> bool" where
  "is_enable (SetEndpointAttributes _) = True"
| "is_enable _ = False"

section \<open>Promises\<close>

text \<open>The state a promise ends in; \<open>Pending\<close> is a promise that never settles.\<close>

datatype ('a, 'e) promise = Resolved 'a | Rejected 'e | Pending

fun any_rejected :: "('a, 'e) promise list \<Rightarrow> bool" where
  "any_rejected [] = False"
| "any_rejected (Rejected e # ps) = True"
| "any_rejected (p # ps) = any_rejected ps"

fun when_results :: "('a, 'e) promise list \<Rightarrow> 'a list" where
  "when_results [] = []"
| "when_results (Resolved v # ps) = v # when_results ps"
| "when_results (p # ps) = when_results ps"

fun when_errors :: "('a, 'e) promise list \<Rightarrow> 'e option list" where
  "when_errors [] = []"
| "when_errors (Rejected e # ps) = Some e # when_errors ps"
| "when_errors (p # ps) = None # when_errors ps"

text \<open>
  Modelled from the spec: \<^verbatim>\<open>Parse.Promise.when\<close> on an array of promises, a function of
  the parse library that is not under src/. Sections 4.4 and 5 of the spec: the caller
  collects all outcomes (success list and failure list) before proceeding, and a failed
  resolution propagates as a rejected aggregate. So the aggregate settles once every
  member has settled, rejects with the errors (one slot per member) when a member was
  rejected, and resolves with the members' values otherwise.
\<close>

definition Promise_when :: "('a, 'e) promise list \<Rightarrow> ('a list, 'e option list) promise" where
  "Promise_when ps =
     (if Pending \<in> set ps then Pending
      else if any_rejected ps then Rejected (when_errors ps)
      else Resolved (when_results ps))"

text \<open>
  \<^verbatim>\<open>xs.map(f)\<close> for a callback that issues provider requests and may throw: the
  exception ends the iteration, the requests issued so far stay issued.
\<close>

fun map_calls ::
  "('a \<Rightarrow> sns_call list \<times> (js_error + 'b)) \<Rightarrow> 'a list \<Rightarrow> sns_call list \<times> (js_error + 'b list)" where
  "map_calls f [] = ([], Inr [])"
| "map_calls f (x # xs) =
     (case f x of
        (calls, Inl e) \<Rightarrow> (calls, Inl e)
      | (calls, Inr y) \<Rightarrow>
          (case map_calls f xs of
             (calls', Inl e) \<Rightarrow> (calls @ calls', Inl e)
           | (calls', Inr ys) \<Rightarrow> (calls @ calls', Inr (y # ys))))"

section \<open>Token resolution\<close>

text \<open>The value an exchange resolves with: \<^verbatim>\<open>{ device: .., arn: .. }\<close>.\<close>

record exchange_response =
  exchange_device :: installation
  exchange_arn :: "string option"

text \<open>\<^verbatim>\<open>SNSPushAdapter.prototype.getPlatformArn\<close> (lines 162-169): the request and its callback arguments.\<close>

definition getPlatformArn ::
  "sns_client \<Rightarrow> installation \<Rightarrow> string option \<Rightarrow> sns_call \<times> endpoint_data aws_response" where
  "getPlatformArn sns dev platformArn =
     (let params = \<lparr>PlatformApplicationArn = platformArn, Token = deviceToken dev\<rparr>
      in (CreatePlatformEndpoint params, createPlatformEndpoint sns params))"

text \<open>
  The test of line 182, \<^verbatim>\<open>data != null && data.EndpointArn\<close>: the answer carries an
  endpoint identifier. The error argument is not looked at.
\<close>

definition endpointReturned :: "endpoint_data aws_response \<Rightarrow> bool" where
  "endpointReturned r =
     (case snd r of None \<Rightarrow> False | Some d \<Rightarrow> truthy_string (EndpointArn d))"

text \<open>The callback of lines 181-190: resolve on a truthy \<^verbatim>\<open>data.EndpointArn\<close>, reject with \<^verbatim>\<open>err\<close> otherwise.\<close>

definition exchangeCallback ::
  "installation \<Rightarrow> endpoint_data aws_response \<Rightarrow> (exchange_response, aws_error option) promise" where
  "exchangeCallback dev r =
     (case r of
        (err, None) \<Rightarrow> Rejected err
      | (err, Some d) \<Rightarrow>
          if truthy_string (EndpointArn d)
          then Resolved \<lparr>exchange_device = dev, exchange_arn = EndpointArn d\<rparr>
          else Rejected err)"

text \<open>
  \<^verbatim>\<open>SNSPushAdapter.prototype.exchangeTokenPromise\<close> (lines 174-192).
  \<^verbatim>\<open>device.deviceToken.startsWith\<close> throws a TypeError on an undefined token.
\<close>

definition exchangeTokenPromise ::
  "sns_client \<Rightarrow> installation \<Rightarrow> string option \<Rightarrow>
   sns_call list \<times> (js_error + (exchange_response, aws_error option) promise)" where
  "exchangeTokenPromise sns dev platformARN =
     (case deviceToken dev of
        None \<Rightarrow> ([], Inl TypeError)
      | Some tok \<Rightarrow>
          if startsWith tok ''arn''
          then ([], Inr (Resolved \<lparr>exchange_device = dev, exchange_arn = topicArn dev\<rparr>))
          else (case getPlatformArn sns dev platformARN of
                  (call, r) \<Rightarrow> ([call], Inr (exchangeCallback dev r))))"

section \<open>Publishing to one device\<close>

datatype provider_response = ErrorStack string | ResponseData "js_object option"

text \<open>
  The \<^verbatim>\<open>response\<close> object of \<^verbatim>\<open>sendSNSPayload\<close>: it starts with the device only;
  \<^verbatim>\<open>transmitted\<close> and \<^verbatim>\<open>response\<close> are assigned in the callbacks.
\<close>

record delivery_outcome =
  outcome_deviceType :: string
  outcome_deviceToken :: string
  transmitted :: "bool option"
  response :: "provider_response option"

text \<open>The error branch shared by the three callbacks (lines 226-230, 258-262, 270-274).\<close>

definition recordFailure :: "aws_error \<Rightarrow> delivery_outcome \<Rightarrow> delivery_outcome" where
  "recordFailure e resp =
     (let resp = resp\<lparr>transmitted := Some False\<rparr>
      in if truthy_string (stack e)
         then resp\<lparr>response := map_option ErrorStack (stack e)\<rparr>
         else resp)"

text \<open>The callback of \<^verbatim>\<open>sns.publish\<close> (lines 223-240 and, word for word, 267-284).\<close>

definition publishCallback ::
  "delivery_outcome \<Rightarrow> js_object aws_response \<Rightarrow> (delivery_outcome, delivery_outcome) promise" where
  "publishCallback resp r =
     (case r of
        (Some e, dat) \<Rightarrow> Rejected (recordFailure e resp)
      | (None, dat) \<Rightarrow>
          Resolved (resp\<lparr>transmitted := Some True, response := Some (ResponseData dat)\<rparr>))"

text \<open>
  The callback of \<^verbatim>\<open>sns.setEndpointAttributes\<close> (lines 255-286): reject on an error,
  publish when \<^verbatim>\<open>data\<close> is truthy, and do nothing otherwise.
\<close>

definition enableCallback ::
  "sns_client \<Rightarrow> publish_params \<Rightarrow> delivery_outcome \<Rightarrow> js_object aws_response \<Rightarrow>
   sns_call list \<times> (delivery_outcome, delivery_outcome) promise" where
  "enableCallback sns object resp r =
     (case r of
        (Some e, dat) \<Rightarrow> ([], Rejected (recordFailure e resp))
      | (None, Some d) \<Rightarrow> ([Publish object], publishCallback resp (publish sns object))
      | (None, None) \<Rightarrow> ([], Pending))"

text \<open>\<^verbatim>\<open>SNSPushAdapter.prototype.sendSNSPayload\<close> (lines 200-288).\<close>

definition sendSNSPayload ::
  "libs \<Rightarrow> sns_client \<Rightarrow> string option \<Rightarrow> js_object \<Rightarrow> installation \<Rightarrow>
   sns_call list \<times> (js_error + (delivery_outcome, delivery_outcome) promise)" where
  "sendSNSPayload L sns arn payload dev =
     (let object = \<lparr>Message = json_stringify L (JObj payload), MessageStructure = ''json'',
                     TargetArn = arn, TopicArn = None\<rparr>
      in case deviceToken dev of
           None \<Rightarrow> ([], Inl TypeError)
         | Some tok \<Rightarrow>
             (let object = (if startsWith tok ''arn''
                            then object\<lparr>TargetArn := None, TopicArn := Some tok\<rparr>
                            else object);
                  resp = \<lparr>outcome_deviceType = deviceType dev, outcome_deviceToken = tok,
                           transmitted = None, response = None\<rparr>
              in if truthy_string (TopicArn object)
                 then ([Publish object], Inr (publishCallback resp (publish sns object)))
                 else (let params = \<lparr>Attributes_Enabled = ''true'', params_EndpointArn = arn\<rparr>
                       in case enableCallback sns object resp (setEndpointAttributes sns params) of
                            (calls, p) \<Rightarrow> (SetEndpointAttributes params # calls, Inr p))))"

section \<open>Sending to a group of devices\<close>

datatype group_failure =
    ExchangeErrors "aws_error option option list"
  | CallbackThrew js_error

text \<open>
  \<^verbatim>\<open>SNSPushAdapter.prototype.sendToSNS\<close> (lines 141-156). The callback of \<^verbatim>\<open>then\<close>
  runs when the aggregate resolves; it has no \<^verbatim>\<open>return\<close>, so the promise returned
  resolves with \<^verbatim>\<open>undefined\<close> as soon as the publish requests are issued. No rejection
  handler is given: a rejected aggregate rejects the promise returned.
\<close>

definition sendToSNS ::
  "libs \<Rightarrow> sns_client \<Rightarrow> js_object \<Rightarrow> installation list \<Rightarrow> string option \<Rightarrow>
   sns_call list \<times> (js_error + (unit, group_failure) promise)" where
  "sendToSNS L sns payload devices platformArn =
     (case map_calls (\<lambda>dev. exchangeTokenPromise sns dev platformArn) devices of
        (calls, Inl e) \<Rightarrow> (calls, Inl e)
      | (calls, Inr exchangePromises) \<Rightarrow>
          (case Promise_when exchangePromises of
             Pending \<Rightarrow> (calls, Inr Pending)
           | Rejected errors \<Rightarrow> (calls, Inr (Rejected (ExchangeErrors errors)))
           | Resolved exchangeResponses \<Rightarrow>
               (case map_calls (\<lambda>r. sendSNSPayload L sns (exchange_arn r) payload (exchange_device r))
                       exchangeResponses of
                  (calls', Inl e) \<Rightarrow> (calls @ calls', Inr (Rejected (CallbackThrew e)))
                | (calls', Inr sends) \<Rightarrow> (calls @ calls', Inr (Resolved ())))))"

section \<open>Configuration and construction\<close>

text \<open>One platform entry of \<^verbatim>\<open>pushConfig.pushTypes\<close>; the iOS entry may be an array of them.\<close>

record sns_platform_config =
  production :: "bool option"
  bundleId :: "string option"
  ARN :: "string option"

datatype platform_config =
    Config sns_platform_config
  | ConfigArray "sns_platform_config list"

text \<open>
  \<^verbatim>\<open>pushConfig\<close>. \<^verbatim>\<open>pushTypes\<close> is an object: its keys are distinct and stand in the
  order of \<^verbatim>\<open>Object.keys\<close>.
\<close>

record push_config =
  accessKey :: "string option"
  secretKey :: "string option"
  region :: "string option"
  pushTypes :: "(string \<times> platform_config) list option"

datatype parse_error_code = PUSH_MISCONFIGURED

record parse_error =
  error_code :: parse_error_code
  error_message :: string

datatype sender = SendToAPNS | SendToGCM

record aws_config =
  accessKeyId :: "string option"
  secretAccessKey :: "string option"
  aws_region :: string

record adapter =
  validPushTypes :: "string list"
  availablePushTypes :: "string list"
  snsConfig :: "(string \<times> platform_config) list option"
  senderMap :: "(string \<times> sender) list"
  awsConfig :: "aws_config option"

definition DEFAULT_REGION :: string where
  "DEFAULT_REGION = ''us-east-1''"

text \<open>
  The loop of the constructor (lines 29-43) over \<^verbatim>\<open>Object.keys(pushConfig.pushTypes)\<close>.
  The message concatenates the whole array \<^verbatim>\<open>pushTypes\<close>, not the one \<^verbatim>\<open>pushType\<close>.
\<close>

fun registerPushTypes :: "string list \<Rightarrow> string list \<Rightarrow> adapter \<Rightarrow> parse_error + adapter" where
  "registerPushTypes allTypes [] self = Inr self"
| "registerPushTypes allTypes (pushType # rest) self =
     (if pushType \<notin> set (validPushTypes self)
      then Inl \<lparr>error_code = PUSH_MISCONFIGURED,
                error_message = ''Push to '' @ array_toString allTypes @ '' is not supported''\<rparr>
      else (let self = self\<lparr>availablePushTypes := availablePushTypes self @ [pushType]\<rparr>;
                self = (if pushType = ''ios''
                        then self\<lparr>senderMap := js_set pushType SendToAPNS (senderMap self)\<rparr>
                        else if pushType = ''android''
                        then self\<lparr>senderMap := js_set pushType SendToGCM (senderMap self)\<rparr>
                        else self)
            in registerPushTypes allTypes rest self))"

text \<open>The constructor \<^verbatim>\<open>SNSPushAdapter\<close> (lines 16-54); a \<^verbatim>\<open>throw\<close> is \<open>Inl\<close>.\<close>

definition SNSPushAdapter :: "push_config \<Rightarrow> parse_error + adapter" where
  "SNSPushAdapter pushConfig =
     (let self = \<lparr>validPushTypes = [''ios'', ''android''], availablePushTypes = [],
                  snsConfig = pushTypes pushConfig, senderMap = [], awsConfig = None\<rparr>
      in if \<not> truthy_string (accessKey pushConfig) \<or> \<not> truthy_string (secretKey pushConfig)
         then Inl \<lparr>error_code = PUSH_MISCONFIGURED, error_message = ''Need to provide AWS keys''\<rparr>
         else (case (case pushTypes pushConfig of
                       None \<Rightarrow> Inr self
                     | Some pts \<Rightarrow> registerPushTypes (map fst pts) (map fst pts) self) of
                 Inl e \<Rightarrow> Inl e
               | Inr self \<Rightarrow>
                   Inr (self\<lparr>awsConfig := Some
                          \<lparr>accessKeyId = accessKey pushConfig,
                           secretAccessKey = secretKey pushConfig,
                           aws_region = (case region pushConfig of
                                           None \<Rightarrow> DEFAULT_REGION
                                         | Some r \<Rightarrow> if r \<noteq> [] then r else DEFAULT_REGION)\<rparr>\<rparr>)))"

text \<open>\<^verbatim>\<open>SNSPushAdapter.prototype.getValidPushTypes\<close> (lines 57-59).\<close>

definition getValidPushTypes :: "adapter \<Rightarrow> string list" where
  "getValidPushTypes self = availablePushTypes self"

section \<open>Classification\<close>

text \<open>
  Modelled from the spec: \<^verbatim>\<open>utils.classifyInstallations\<close> of parse-server-push-adapter,
  which is not under src/. Section 4.2 of the spec: the output maps each available
  platform to the installations of that platform, in input order; an installation whose
  platform is not available is dropped.
\<close>

definition utils_classifyInstallations ::
  "installation list \<Rightarrow> string list \<Rightarrow> (string \<times> installation list) list" where
  "utils_classifyInstallations installations validTypes =
     map (\<lambda>t. (t, filter (\<lambda>i. deviceType i = t) installations)) validTypes"

text \<open>\<^verbatim>\<open>SNSPushAdapter.classifyInstallations\<close> (lines 61-63).\<close>

definition classifyInstallations ::
  "installation list \<Rightarrow> string list \<Rightarrow> (string \<times> installation list) list" where
  "classifyInstallations installations validTypes =
     utils_classifyInstallations installations validTypes"

section \<open>The platform senders\<close>

text \<open>
  The test of lines 116-122: a device with a falsy \<^verbatim>\<open>appIdentifier\<close> is sent to, and
  otherwise one whose \<^verbatim>\<open>appIdentifier\<close> is the \<^verbatim>\<open>bundleId\<close> of the configuration.
\<close>

definition bundleAccepts :: "sns_platform_config \<Rightarrow> installation \<Rightarrow> bool" where
  "bundleAccepts iosConfig dev =
     (if \<not> truthy_string (appIdentifier dev) \<or> appIdentifier dev = Some [] then True
      else if appIdentifier dev = bundleId iosConfig then True
      else False)"

text \<open>The array \<^verbatim>\<open>deviceSends\<close> the inner loop (lines 112-123) builds for one configuration.\<close>

definition deviceSends :: "sns_platform_config \<Rightarrow> installation list \<Rightarrow> installation list" where
  "deviceSends iosConfig devices = filter (bundleAccepts iosConfig) devices"

text \<open>The outer loop of \<^verbatim>\<open>sendToAPNS\<close> (lines 107-127).\<close>

fun sendToAPNS_loop ::
  "libs \<Rightarrow> sns_client \<Rightarrow> push_data \<Rightarrow> installation list \<Rightarrow> sns_platform_config list \<Rightarrow>
   sns_call list \<times> (js_error + (unit, group_failure) promise list)" where
  "sendToAPNS_loop L sns d devices [] = ([], Inr [])"
| "sendToAPNS_loop L sns d devices (iosConfig # rest) =
     (let isProduction = (case production iosConfig of None \<Rightarrow> False | Some b \<Rightarrow> b);
          payload = generateiOSPayload L d isProduction;
          sends = deviceSends iosConfig devices
      in if sends \<noteq> []
         then (case sendToSNS L sns payload sends (ARN iosConfig) of
                 (calls, Inl e) \<Rightarrow> (calls, Inl e)
               | (calls, Inr p) \<Rightarrow>
                   (case sendToAPNS_loop L sns d devices rest of
                      (calls', Inl e) \<Rightarrow> (calls @ calls', Inl e)
                    | (calls', Inr ps) \<Rightarrow> (calls @ calls', Inr (p # ps))))
         else sendToAPNS_loop L sns d devices rest)"

text \<open>
  \<^verbatim>\<open>SNSPushAdapter.prototype.sendToAPNS\<close> (lines 94-130). Without an iOS entry the
  loop reads \<^verbatim>\<open>production\<close> of \<^verbatim>\<open>undefined\<close>: a TypeError.
\<close>

definition sendToAPNS ::
  "libs \<Rightarrow> sns_client \<Rightarrow> adapter \<Rightarrow> push_data \<Rightarrow> installation list \<Rightarrow>
   sns_call list \<times> (js_error + (unit, group_failure) promise list)" where
  "sendToAPNS L sns self d devices =
     (case snsConfig self of
        None \<Rightarrow> ([], Inl TypeError)
      | Some cfg \<Rightarrow>
          (case map_of cfg ''ios'' of
             None \<Rightarrow> ([], Inl TypeError)
           | Some (ConfigArray iosConfigs) \<Rightarrow> sendToAPNS_loop L sns d devices iosConfigs
           | Some (Config iosConfig) \<Rightarrow> sendToAPNS_loop L sns d devices [iosConfig]))"

text \<open>
  \<^verbatim>\<open>SNSPushAdapter.prototype.sendToGCM\<close> (lines 132-137). An array has no \<^verbatim>\<open>ARN\<close>
  property.
\<close>

definition sendToGCM ::
  "libs \<Rightarrow> sns_client \<Rightarrow> adapter \<Rightarrow> push_data \<Rightarrow> installation list \<Rightarrow>
   sns_call list \<times> (js_error + (unit, group_failure) promise)" where
  "sendToGCM L sns self d devices =
     (let payload = generateAndroidPayload L d None None
      in case snsConfig self of
           None \<Rightarrow> ([], Inl TypeError)
         | Some cfg \<Rightarrow>
             (case map_of cfg ''android'' of
                None \<Rightarrow> ([], Inl TypeError)
              | Some (Config pushConfig) \<Rightarrow> sendToSNS L sns payload devices (ARN pushConfig)
              | Some (ConfigArray cs) \<Rightarrow> sendToSNS L sns payload devices None))"

section \<open>The entry point\<close>

text \<open>
  The second argument of \<^verbatim>\<open>send\<close>: an array of installations, or an object whose
  \<^verbatim>\<open>arn\<close> property is one.
\<close>

datatype installations_arg =
    InstallationArray "installation list"
  | ArnObject "installation list"

text \<open>Line 298: \<^verbatim>\<open>installation.deviceToken = installation.topicArn\<close>.\<close>

definition retarget :: "installation \<Rightarrow> installation" where
  "retarget i = i\<lparr>deviceToken := topicArn i\<rparr>"

text \<open>
  The callback of \<^verbatim>\<open>forEach\<close> (lines 303-308) for one platform; what the sender
  returns is dropped by \<^verbatim>\<open>forEach\<close>.
\<close>

definition call_sender ::
  "libs \<Rightarrow> sns_client \<Rightarrow> adapter \<Rightarrow> push_data \<Rightarrow> string \<Rightarrow> installation list \<Rightarrow>
   sns_call list \<times> (js_error + unit)" where
  "call_sender L sns self d pushType devices =
     (case map_of (senderMap self) pushType of
        None \<Rightarrow> ([], Inl TypeError)
      | Some SendToAPNS \<Rightarrow>
          (case sendToAPNS L sns self d devices of
             (calls, Inl e) \<Rightarrow> (calls, Inl e)
           | (calls, Inr ps) \<Rightarrow> (calls, Inr ()))
      | Some SendToGCM \<Rightarrow>
          (case sendToGCM L sns self d devices of
             (calls, Inl e) \<Rightarrow> (calls, Inl e)
           | (calls, Inr p) \<Rightarrow> (calls, Inr ())))"

fun forEach_pushType ::
  "libs \<Rightarrow> sns_client \<Rightarrow> adapter \<Rightarrow> push_data \<Rightarrow> (string \<times> installation list) list \<Rightarrow>
   sns_call list \<times> (js_error + unit)" where
  "forEach_pushType L sns self d [] = ([], Inr ())"
| "forEach_pushType L sns self d ((pushType, devices) # rest) =
     (case call_sender L sns self d pushType devices of
        (calls, Inl e) \<Rightarrow> (calls, Inl e)
      | (calls, Inr u) \<Rightarrow>
          (case forEach_pushType L sns self d rest of
             (calls', r) \<Rightarrow> (calls @ calls', r)))"

text \<open>
  \<^verbatim>\<open>SNSPushAdapter.prototype.send\<close> (lines 294-311). The result is the caller's
  installation records as \<^verbatim>\<open>send\<close> leaves them, the provider requests issued, and the
  promise returned. \<^verbatim>\<open>forEach\<close> returns \<^verbatim>\<open>undefined\<close>, so \<^verbatim>\<open>sendPromises\<close> is
  \<^verbatim>\<open>undefined\<close> and \<^verbatim>\<open>Parse.Promise.when\<close> of it resolves at once with
  \<^verbatim>\<open>undefined\<close>: \<open>Resolved None\<close>, where \<open>Resolved (Some outcomes)\<close> would be a
  promise of the outcomes.
\<close>

definition send ::
  "libs \<Rightarrow> sns_client \<Rightarrow> adapter \<Rightarrow> push_data \<Rightarrow> installations_arg \<Rightarrow>
   installation list \<times> sns_call list \<times> (js_error + (delivery_outcome list option, unit) promise)" where
  "send L sns self d installations =
     (let installations = (case installations of
                             ArnObject arnList \<Rightarrow> map retarget arnList
                           | InstallationArray xs \<Rightarrow> xs);
          deviceMap = utils_classifyInstallations installations (availablePushTypes self)
      in case forEach_pushType L sns self d deviceMap of
           (calls, Inl e) \<Rightarrow> (installations, calls, Inl e)
         | (calls, Inr sendPromises) \<Rightarrow> (installations, calls, Inr (Resolved None)))"

section \<open>Concrete inputs\<close>

text \<open>Values at which the theorems below are instantiated.\<close>

definition example_libs :: libs where
  "example_libs =
     \<lparr>apns_compile = (\<lambda>body expiry. JObj [(''aps'', body)]),
      generateGCMPayload = (\<lambda>body pushId timeStamp expiry.
         [(''priority'', JStr ''normal''),
          (''data'', JObj [(''time'', JNum timeStamp), (''push_id'', JStr pushId), (''data'', body)])]),
      randomString = (\<lambda>n. replicate n CHR ''r''),
      date_now = 1500000000000,
      json_stringify = (\<lambda>j. case j of JObj kvs \<Rightarrow> concat (map fst kvs) | _ \<Rightarrow> [])\<rparr>"

definition example_data :: push_data where
  "example_data = \<lparr>data = JObj [(''alert'', JStr ''hi'')], expirationTime = None\<rparr>"

definition example_error :: aws_error where
  "example_error = \<lparr>err_message = ''EndpointDisabled'', stack = Some ''Error: EndpointDisabled''\<rparr>"

text \<open>A provider that accepts every request.\<close>

definition sns_accepting :: sns_client where
  "sns_accepting =
     \<lparr>createPlatformEndpoint = (\<lambda>p. (None,
          Some \<lparr>EndpointArn = Some (''endpoint/'' @ (case Token p of None \<Rightarrow> [] | Some t \<Rightarrow> t))\<rparr>)),
      setEndpointAttributes = (\<lambda>p. (None, Some [])),
      publish = (\<lambda>p. (None, Some [(''MessageId'', JStr ''m-1'')]))\<rparr>"

text \<open>Providers that differ from it in one operation.\<close>

definition sns_enable_fails :: sns_client where
  "sns_enable_fails = sns_accepting\<lparr>setEndpointAttributes := (\<lambda>p. (Some example_error, None))\<rparr>"

definition sns_enable_silent :: sns_client where
  "sns_enable_silent = sns_accepting\<lparr>setEndpointAttributes := (\<lambda>p. (None, None))\<rparr>"

definition sns_publish_fails :: sns_client where
  "sns_publish_fails = sns_accepting\<lparr>publish := (\<lambda>p. (Some example_error, None))\<rparr>"

definition sns_create_fails_for :: "string \<Rightarrow> sns_client" where
  "sns_create_fails_for tok =
     sns_accepting\<lparr>createPlatformEndpoint := (\<lambda>p.
        if Token p = Some tok then (Some example_error, None)
        else createPlatformEndpoint sns_accepting p)\<rparr>"

text \<open>A provider that answers one create-endpoint request with an error and an endpoint.\<close>

definition sns_create_warns_for :: "string \<Rightarrow> sns_client" where
  "sns_create_warns_for tok =
     sns_accepting\<lparr>createPlatformEndpoint := (\<lambda>p.
        if Token p = Some tok
        then (Some example_error, Some \<lparr>EndpointArn = Some (''endpoint/'' @ tok)\<rparr>)
        else createPlatformEndpoint sns_accepting p)\<rparr>"

definition ios_a :: installation where
  "ios_a = \<lparr>deviceType = ''ios'', deviceToken = Some ''tokA'',
            appIdentifier = Some ''com.a'', topicArn = None\<rparr>"

definition ios_b :: installation where
  "ios_b = \<lparr>deviceType = ''ios'', deviceToken = Some ''tokB'',
            appIdentifier = Some ''com.b'', topicArn = None\<rparr>"

definition ios_unbundled :: installation where
  "ios_unbundled = \<lparr>deviceType = ''ios'', deviceToken = Some ''tokU'',
                    appIdentifier = None, topicArn = None\<rparr>"

definition android_1 :: installation where
  "android_1 = \<lparr>deviceType = ''android'', deviceToken = Some ''tokG'',
                appIdentifier = None, topicArn = None\<rparr>"

definition topic_device :: installation where
  "topic_device = \<lparr>deviceType = ''ios'', deviceToken = Some ''arn:aws:sns:news'',
                   appIdentifier = None, topicArn = Some ''arn:aws:sns:news''\<rparr>"

definition subscriber :: installation where
  "subscriber = \<lparr>deviceType = ''ios'', deviceToken = Some ''tokS'',
                 appIdentifier = None, topicArn = Some ''arn:aws:sns:news''\<rparr>"

definition bundle_a :: sns_platform_config where
  "bundle_a = \<lparr>production = Some True, bundleId = Some ''com.a'', ARN = Some ''app/ios-a''\<rparr>"

text \<open>A second bundle, and an adapter configured with both.\<close>

definition bundle_b :: sns_platform_config where
  "bundle_b = \<lparr>production = None, bundleId = Some ''com.b'', ARN = Some ''app/ios-b''\<rparr>"

definition two_bundle_adapter :: adapter where
  "two_bundle_adapter =
     \<lparr>validPushTypes = [''ios'', ''android''], availablePushTypes = [''ios''],
      snsConfig = Some [(''ios'', ConfigArray [bundle_a, bundle_b])],
      senderMap = [(''ios'', SendToAPNS)],
      awsConfig = Some \<lparr>accessKeyId = Some ''AK'', secretAccessKey = Some ''SK'',
                        aws_region = ''us-east-1''\<rparr>\<rparr>"

definition android_config :: sns_platform_config where
  "android_config = \<lparr>production = None, bundleId = None, ARN = Some ''app/android''\<rparr>"

text \<open>The configuration of the end-to-end scenario, and the adapter constructed from it.\<close>

definition scenario_config :: push_config where
  "scenario_config =
     \<lparr>accessKey = Some ''AK'', secretKey = Some ''SK'', region = None,
      pushTypes = Some [(''ios'', ConfigArray [bundle_a]), (''android'', Config android_config)]\<rparr>"

definition scenario_adapter :: adapter where
  "scenario_adapter =
     \<lparr>validPushTypes = [''ios'', ''android''], availablePushTypes = [''ios'', ''android''],
      snsConfig = pushTypes scenario_config,
      senderMap = [(''ios'', SendToAPNS), (''android'', SendToGCM)],
      awsConfig = Some \<lparr>accessKeyId = Some ''AK'', secretAccessKey = Some ''SK'',
                        aws_region = ''us-east-1''\<rparr>\<rparr>"

definition scenario_installations :: "installation list" where
  "scenario_installations = [ios_a, ios_unbundled, android_1]"

text \<open>Configurations that name an unsupported platform, with and without the AWS keys.\<close>

definition windows_config :: push_config where
  "windows_config =
     \<lparr>accessKey = Some ''AK'', secretKey = Some ''SK'', region = None,
      pushTypes = Some [(''ios'', Config bundle_a), (''windows'', Config android_config)]\<rparr>"

definition keyless_windows_config :: push_config where
  "keyless_windows_config = windows_config\<lparr>accessKey := None\<rparr>"

section \<open>Properties of the payload framers\<close>

lemma map_of_js_set_same: "map_of (js_set k v kvs) k = Some v"
  by (induction kvs) auto

lemma map_of_js_set_other: "k' \<noteq> k \<Longrightarrow> map_of (js_set k v kvs) k' = map_of kvs k'"
  by (induction kvs) auto

text \<open>
  Claim C6. For every notification body and production flag, the iOS payload framer
  returns a mapping whose platform key is \<^verbatim>\<open>APNS\<close> when production is true and
  \<^verbatim>\<open>APNS_SANDBOX\<close> when it is false, and which also holds the key \<^verbatim>\<open>default\<close> with the
  value \<^verbatim>\<open>sns\<close>. The mapping has exactly these two keys, in this order; the platform
  key carries the compiled notification.
\<close>

theorem generateiOSPayload_envelope:
  "generateiOSPayload L d isProduction =
     [(if isProduction then ''APNS'' else ''APNS_SANDBOX'', apns_compile L (data d) (expirationTime d)),
      (''default'', JStr ''sns'')]"
  by (simp add: generateiOSPayload_def)

theorem generateiOSPayload_envelope_witness:
  "map fst (generateiOSPayload example_libs example_data True) = [''APNS'', ''default'']
   \<and> map fst (generateiOSPayload example_libs example_data False) = [''APNS_SANDBOX'', ''default'']
   \<and> map_of (generateiOSPayload example_libs example_data False) ''default'' = Some (JStr ''sns'')"
  using generateiOSPayload_envelope [of example_libs example_data True]
        generateiOSPayload_envelope [of example_libs example_data False]
  by simp

text \<open>
  Claim C7. For every notification body, the Android payload framer returns exactly
  \<^verbatim>\<open>{ "GCM": s }\<close>, where \<open>s\<close> is the JSON serialisation of an object holding the
  android-native fields of \<^verbatim>\<open>GCM.generateGCMPayload\<close> plus the key \<^verbatim>\<open>default\<close>; without
  an idempotency token the token is \<^verbatim>\<open>utils.randomString(10)\<close>, of length 10 when that
  function returns a string of the length asked for; and two runs on the same input whose
  token and timestamp coincide return the same value, so runs differ in nothing else.
  That \<open>s\<close> parses back to the object is the contract of \<^verbatim>\<open>JSON.parse\<close> and
  \<^verbatim>\<open>JSON.stringify\<close>, which are parameters here.
\<close>

theorem generateAndroidPayload_envelope:
  "generateAndroidPayload L d pushId timeStamp =
     [(''GCM'', JStr (json_stringify L (JObj (androidInnerPayload L d
          (effective_pushId L pushId) (effective_timeStamp L timeStamp)))))]
   \<and> map_of (androidInnerPayload L d p t) ''default'' = Some (JStr ''sns'')
   \<and> (k \<noteq> ''default'' \<longrightarrow>
        map_of (androidInnerPayload L d p t) k
          = map_of (generateGCMPayload L (data d) p t (expirationTime d)) k)
   \<and> (\<not> truthy_string pushId \<longrightarrow> effective_pushId L pushId = randomString L 10)
   \<and> (\<not> truthy_string pushId \<and> length (randomString L 10) = 10 \<longrightarrow>
        length (effective_pushId L pushId) = 10)
   \<and> (generateGCMPayload L' = generateGCMPayload L \<and> json_stringify L' = json_stringify L
        \<and> effective_pushId L' pushId = effective_pushId L pushId
        \<and> effective_timeStamp L' timeStamp = effective_timeStamp L timeStamp \<longrightarrow>
        generateAndroidPayload L' d pushId timeStamp = generateAndroidPayload L d pushId timeStamp)"
  by (auto simp: generateAndroidPayload_def androidInnerPayload_def effective_pushId_def
      truthy_string_def map_of_js_set_same map_of_js_set_other split: option.splits)

theorem generateAndroidPayload_envelope_witness:
  "generateAndroidPayload example_libs example_data None None = [(''GCM'', JStr ''prioritydatadefault'')]
   \<and> map_of (androidInnerPayload example_libs example_data ''rrrrrrrrrr'' 7) ''priority'' = Some (JStr ''normal'')
   \<and> effective_pushId example_libs None = ''rrrrrrrrrr''
   \<and> length (effective_pushId example_libs None) = 10
   \<and> generateAndroidPayload (example_libs\<lparr>date_now := 1500000000000, randomString := (\<lambda>n. ''rrrrrrrrrr'')\<rparr>) example_data None None
       = generateAndroidPayload example_libs example_data None None"
proof -
  have r10: "replicate 10 CHR ''r'' = ''rrrrrrrrrr''"
    by (simp add: numeral_eq_Suc)
  show ?thesis
    using generateAndroidPayload_envelope [of example_libs example_data None None "''rrrrrrrrrr''" 7
        "''priority''" "example_libs\<lparr>date_now := 1500000000000, randomString := (\<lambda>n. ''rrrrrrrrrr'')\<rparr>"]
    by (simp add: example_libs_def example_data_def truthy_string_def effective_pushId_def
        effective_timeStamp_def androidInnerPayload_def generateAndroidPayload_def r10)
qed

section \<open>Properties of the per-device send\<close>

text \<open>
  Claim C3. For every device whose \<^verbatim>\<open>deviceToken\<close> starts with \<^verbatim>\<open>arn\<close>, token resolution
  issues no request at all (so no create-endpoint request) and resolves to the device's
  \<^verbatim>\<open>topicArn\<close>; the send issues exactly one request, a publish whose \<^verbatim>\<open>TopicArn\<close> is the
  token and whose \<^verbatim>\<open>TargetArn\<close> is unset, with no set-endpoint-attributes request before it.
\<close>

theorem topic_token_bypasses_endpoint:
  assumes "deviceToken dev = Some tok" and "startsWith tok ''arn''"
  shows "exchangeTokenPromise sns dev platformARN
           = ([], Inr (Resolved \<lparr>exchange_device = dev, exchange_arn = topicArn dev\<rparr>))
         \<and> sendSNSPayload L sns endpoint payload dev
           = ([Publish \<lparr>Message = json_stringify L (JObj payload), MessageStructure = ''json'',
                        TargetArn = None, TopicArn = Some tok\<rparr>],
              Inr (publishCallback
                     \<lparr>outcome_deviceType = deviceType dev, outcome_deviceToken = tok,
                      transmitted = None, response = None\<rparr>
                     (publish sns \<lparr>Message = json_stringify L (JObj payload),
                                   MessageStructure = ''json'',
                                   TargetArn = None, TopicArn = Some tok\<rparr>)))"
proof -
  from assms(2) have "tok \<noteq> []"
    by (auto simp: startsWith_def)
  with assms show ?thesis
    by (simp add: exchangeTokenPromise_def sendSNSPayload_def truthy_string_def Let_def)
qed

theorem topic_token_bypasses_endpoint_witness:
  "exchangeTokenPromise sns_accepting topic_device (Some ''app/ios-a'')
     = ([], Inr (Resolved \<lparr>exchange_device = topic_device, exchange_arn = Some ''arn:aws:sns:news''\<rparr>))
   \<and> fst (sendSNSPayload example_libs sns_accepting (Some ''arn:aws:sns:news'') [] topic_device)
     = [Publish \<lparr>Message = [], MessageStructure = ''json'',
                 TargetArn = None, TopicArn = Some ''arn:aws:sns:news''\<rparr>]"
proof -
  have tok: "deviceToken topic_device = Some ''arn:aws:sns:news''"
    by (simp add: topic_device_def)
  have pre: "startsWith ''arn:aws:sns:news'' ''arn''"
    by (simp add: startsWith_def)
  show ?thesis
    using topic_token_bypasses_endpoint [OF tok pre, of sns_accepting "Some ''app/ios-a''"
        example_libs "Some ''arn:aws:sns:news''" "[]"]
    by (simp add: topic_device_def example_libs_def)
qed

text \<open>
  Claim C2, as stated, fails: when set-endpoint-attributes calls back with neither an
  error nor data, no publish is issued. The provider \<open>sns_enable_silent\<close> answers so;
  the only request is the set-endpoint-attributes one and the promise stays pending.
\<close>

theorem publish_skipped_counterexample:
  "fst (setEndpointAttributes sns_enable_silent
          \<lparr>Attributes_Enabled = ''true'', params_EndpointArn = Some ''endpoint/tokA''\<rparr>) = None
   \<and> sendSNSPayload example_libs sns_enable_silent (Some ''endpoint/tokA'') [] ios_a
     = ([SetEndpointAttributes \<lparr>Attributes_Enabled = ''true'', params_EndpointArn = Some ''endpoint/tokA''\<rparr>],
        Inr Pending)"
  by (simp add: sendSNSPayload_def enableCallback_def sns_enable_silent_def sns_accepting_def
      ios_a_def startsWith_def truthy_string_def)

text \<open>
  Claim C2, amended. For every targeted-endpoint (non-topic) device send, the first request
  is set-endpoint-attributes with \<^verbatim>\<open>Enabled\<close> = \<^verbatim>\<open>"true"\<close> for the endpoint; if it calls back
  with an error, it is the only request and the promise is rejected with an outcome whose
  \<^verbatim>\<open>transmitted\<close> is false; if it calls back with no error and a data value, exactly one
  publish follows, to \<^verbatim>\<open>TargetArn\<close>, and the outcome is that of the publish callback:
  rejected with \<^verbatim>\<open>transmitted\<close> false on an error, resolved with \<^verbatim>\<open>transmitted\<close> true and
  the provider's data otherwise. A failed outcome carries the error's stack when it has one.
\<close>

theorem endpoint_send_enables_first:
  assumes "deviceToken dev = Some tok" and "\<not> startsWith tok ''arn''"
  shows "(let params = \<lparr>Attributes_Enabled = ''true'', params_EndpointArn = endpoint\<rparr>;
              object = \<lparr>Message = json_stringify L (JObj payload), MessageStructure = ''json'',
                        TargetArn = endpoint, TopicArn = None\<rparr>;
              resp = \<lparr>outcome_deviceType = deviceType dev, outcome_deviceToken = tok,
                      transmitted = None, response = None\<rparr>;
              result = sendSNSPayload L sns endpoint payload dev
          in (\<exists>later. fst result = SetEndpointAttributes params # later)
             \<and> (fst (setEndpointAttributes sns params) = Some e \<longrightarrow>
                  result = ([SetEndpointAttributes params], Inr (Rejected (recordFailure e resp))))
             \<and> (setEndpointAttributes sns params = (None, Some dat) \<longrightarrow>
                  result = ([SetEndpointAttributes params, Publish object],
                            Inr (publishCallback resp (publish sns object))))
             \<and> (fst answer = Some e' \<longrightarrow>
                  publishCallback resp answer = Rejected (recordFailure e' resp))
             \<and> (fst answer = None \<longrightarrow>
                  publishCallback resp answer
                    = Resolved (resp\<lparr>transmitted := Some True,
                                     response := Some (ResponseData (snd answer))\<rparr>))
             \<and> transmitted (recordFailure e resp) = Some False
             \<and> response (recordFailure e resp)
                 = (if truthy_string (stack e) then map_option ErrorStack (stack e) else None))"
  using assms
  by (auto simp: sendSNSPayload_def truthy_string_def Let_def enableCallback_def publishCallback_def
      recordFailure_def split: option.splits prod.splits)

theorem endpoint_send_enables_first_witness:
  "sendSNSPayload example_libs sns_enable_fails (Some ''endpoint/tokA'') [] ios_a
     = ([SetEndpointAttributes \<lparr>Attributes_Enabled = ''true'', params_EndpointArn = Some ''endpoint/tokA''\<rparr>],
        Inr (Rejected \<lparr>outcome_deviceType = ''ios'', outcome_deviceToken = ''tokA'',
                       transmitted = Some False,
                       response = Some (ErrorStack ''Error: EndpointDisabled'')\<rparr>))
   \<and> sendSNSPayload example_libs sns_accepting (Some ''endpoint/tokA'') [] ios_a
     = ([SetEndpointAttributes \<lparr>Attributes_Enabled = ''true'', params_EndpointArn = Some ''endpoint/tokA''\<rparr>,
         Publish \<lparr>Message = [], MessageStructure = ''json'',
                  TargetArn = Some ''endpoint/tokA'', TopicArn = None\<rparr>],
        Inr (Resolved \<lparr>outcome_deviceType = ''ios'', outcome_deviceToken = ''tokA'',
                       transmitted = Some True,
                       response = Some (ResponseData (Some [(''MessageId'', JStr ''m-1'')]))\<rparr>))"
proof -
  have tok: "deviceToken ios_a = Some ''tokA''"
    by (simp add: ios_a_def)
  have raw: "\<not> startsWith ''tokA'' ''arn''"
    by (simp add: startsWith_def)
  show ?thesis
    using endpoint_send_enables_first [OF tok raw, of "Some ''endpoint/tokA''" example_libs "[]"
        sns_enable_fails example_error "[]" "(None, Some [(''MessageId'', JStr ''m-1'')])" example_error]
      endpoint_send_enables_first [OF tok raw, of "Some ''endpoint/tokA''" example_libs "[]"
        sns_accepting example_error "[]" "(None, Some [(''MessageId'', JStr ''m-1'')])" example_error]
    by (simp add: Let_def ios_a_def example_libs_def example_error_def sns_accepting_def
        sns_enable_fails_def recordFailure_def truthy_string_def)
qed

text \<open>
  Claim C10. For every targeted-endpoint device send in which set-endpoint-attributes
  calls back with no error and with null data, the per-device promise neither resolves
  nor rejects: the set-endpoint-attributes request is the only request, so no publish is
  attempted, and the promise stays pending, so no outcome is produced.
\<close>

theorem unanswered_enable_never_settles:
  assumes "deviceToken dev = Some tok" and "\<not> startsWith tok ''arn''"
    and "setEndpointAttributes sns \<lparr>Attributes_Enabled = ''true'', params_EndpointArn = endpoint\<rparr>
           = (None, None)"
  shows "sendSNSPayload L sns endpoint payload dev
           = ([SetEndpointAttributes \<lparr>Attributes_Enabled = ''true'', params_EndpointArn = endpoint\<rparr>],
              Inr Pending)"
  using assms
  by (simp add: sendSNSPayload_def truthy_string_def enableCallback_def)

theorem unanswered_enable_never_settles_witness:
  "sendSNSPayload example_libs sns_enable_silent (Some ''endpoint/tokG'')
      (generateAndroidPayload example_libs example_data (Some ''push-1'') (Some 7)) android_1
     = ([SetEndpointAttributes \<lparr>Attributes_Enabled = ''true'', params_EndpointArn = Some ''endpoint/tokG''\<rparr>],
        Inr Pending)"
proof -
  have tok: "deviceToken android_1 = Some ''tokG''"
    by (simp add: android_1_def)
  have raw: "\<not> startsWith ''tokG'' ''arn''"
    by (simp add: startsWith_def)
  have silent: "setEndpointAttributes sns_enable_silent
      \<lparr>Attributes_Enabled = ''true'', params_EndpointArn = Some ''endpoint/tokG''\<rparr> = (None, None)"
    by (simp add: sns_enable_silent_def)
  show ?thesis
    using unanswered_enable_never_settles [OF tok raw silent] .
qed

section \<open>Properties of the group send\<close>

lemma map_calls_exchange_raw:
  assumes "\<forall>dev\<in>set devices. \<exists>tok. deviceToken dev = Some tok \<and> \<not> startsWith tok ''arn''"
  shows "map_calls (\<lambda>dev. exchangeTokenPromise sns dev platformArn) devices
           = (map (\<lambda>dev. CreatePlatformEndpoint
                     \<lparr>PlatformApplicationArn = platformArn, Token = deviceToken dev\<rparr>) devices,
              Inr (map (\<lambda>dev. exchangeCallback dev (createPlatformEndpoint sns
                     \<lparr>PlatformApplicationArn = platformArn, Token = deviceToken dev\<rparr>)) devices))"
  using assms
  by (induction devices) (auto simp: exchangeTokenPromise_def getPlatformArn_def Let_def)

lemma exchangeCallback_settles: "exchangeCallback dev r \<noteq> Pending"
  by (auto simp: exchangeCallback_def split: prod.splits option.splits)

lemma exchange_answers_settle:
  "Pending \<notin> set (map (\<lambda>dev. exchangeCallback dev (answer dev)) devices)"
  by (induction devices) (simp_all add: exchangeCallback_settles [symmetric])


lemma exchangeCallback_rejects:
  "\<not> endpointReturned r \<Longrightarrow> exchangeCallback dev r = Rejected (fst r)"
  by (auto simp: exchangeCallback_def endpointReturned_def split: prod.splits option.splits)

lemma any_rejected_member: "Rejected e \<in> set ps \<Longrightarrow> any_rejected ps"
  by (induction ps rule: any_rejected.induct) auto

lemma Promise_when_rejects:
  assumes "Pending \<notin> set ps" and "Rejected e \<in> set ps"
  shows "Promise_when ps = Rejected (when_errors ps)"
  using assms by (simp add: Promise_when_def any_rejected_member)

lemma map_calls_all:
  assumes "\<And>x. x \<in> set xs \<Longrightarrow> \<forall>c\<in>set (fst (f x)). P c"
  shows "\<forall>c\<in>set (fst (map_calls f xs)). P c"
  using assms
proof (induction xs)
  case Nil
  then show ?case by simp
next
  case (Cons x xs)
  have first: "\<forall>c\<in>set (fst (f x)). P c"
    by (rule Cons.prems) simp
  have rest: "\<forall>c\<in>set (fst (map_calls f xs)). P c"
    by (rule Cons.IH, rule Cons.prems) simp
  from first rest show ?case
    by (auto split: prod.splits sum.splits)
qed

lemma sendSNSPayload_no_create: "\<forall>c\<in>set (fst (sendSNSPayload L sns endpoint payload dev)). \<not> is_create c"
  by (auto simp: sendSNSPayload_def enableCallback_def Let_def split: option.splits prod.splits)

lemma publish_phase_no_create:
  "filter is_create (fst (map_calls (\<lambda>r. sendSNSPayload L sns (exchange_arn r) payload
      (exchange_device r)) rs)) = []"
proof -
  have "\<forall>c\<in>set (fst (map_calls (\<lambda>r. sendSNSPayload L sns (exchange_arn r) payload
      (exchange_device r)) rs)). \<not> is_create c"
    by (rule map_calls_all) (rule sendSNSPayload_no_create)
  then show ?thesis
    by (simp add: filter_empty_conv)
qed

lemma sendToSNS_raw_calls:
  assumes raw: "\<forall>dev\<in>set devices. \<exists>tok. deviceToken dev = Some tok \<and> \<not> startsWith tok ''arn''"
  shows "filter is_create (fst (sendToSNS L sns payload devices platformArn))
           = map (\<lambda>dev. CreatePlatformEndpoint
                    \<lparr>PlatformApplicationArn = platformArn, Token = deviceToken dev\<rparr>) devices"
proof -
  let ?create = "\<lambda>dev. CreatePlatformEndpoint
      \<lparr>PlatformApplicationArn = platformArn, Token = deviceToken dev\<rparr>"
  let ?answer = "\<lambda>dev. exchangeCallback dev (createPlatformEndpoint sns
      \<lparr>PlatformApplicationArn = platformArn, Token = deviceToken dev\<rparr>)"
  let ?publish = "\<lambda>rs. map_calls (\<lambda>r. sendSNSPayload L sns (exchange_arn r) payload
      (exchange_device r)) rs"
  have exchange: "map_calls (\<lambda>dev. exchangeTokenPromise sns dev platformArn) devices
      = (map ?create devices, Inr (map ?answer devices))"
    using raw by (rule map_calls_exchange_raw)
  have creates: "filter is_create (map ?create devices) = map ?create devices"
    by (induction devices) simp_all
  show ?thesis
  proof (cases "Promise_when (map ?answer devices)")
    case (Resolved rs)
    obtain cs r where publish: "?publish rs = (cs, r)"
      by (cases "?publish rs")
    with publish_phase_no_create [of L sns payload rs] have "filter is_create cs = []"
      by simp
    with Resolved publish creates show ?thesis
      by (cases r) (simp_all add: sendToSNS_def exchange)
  next
    case (Rejected errors)
    with creates show ?thesis
      by (simp add: sendToSNS_def exchange)
  next
    case Pending
    with creates show ?thesis
      by (simp add: sendToSNS_def exchange)
  qed
qed

lemma sendToSNS_raw_failure:
  assumes raw: "\<forall>dev\<in>set devices. \<exists>tok. deviceToken dev = Some tok \<and> \<not> startsWith tok ''arn''"
    and member: "dev \<in> set devices"
    and failed: "\<not> endpointReturned (createPlatformEndpoint sns
        \<lparr>PlatformApplicationArn = platformArn, Token = deviceToken dev\<rparr>)"
  shows "sendToSNS L sns payload devices platformArn
           = (map (\<lambda>dev. CreatePlatformEndpoint
                    \<lparr>PlatformApplicationArn = platformArn, Token = deviceToken dev\<rparr>) devices,
              Inr (Rejected (ExchangeErrors (when_errors
                (map (\<lambda>dev. exchangeCallback dev (createPlatformEndpoint sns
                    \<lparr>PlatformApplicationArn = platformArn, Token = deviceToken dev\<rparr>)) devices)))))"
proof -
  let ?create = "\<lambda>dev. CreatePlatformEndpoint
      \<lparr>PlatformApplicationArn = platformArn, Token = deviceToken dev\<rparr>"
  let ?answer = "\<lambda>dev. exchangeCallback dev (createPlatformEndpoint sns
      \<lparr>PlatformApplicationArn = platformArn, Token = deviceToken dev\<rparr>)"
  have exchange: "map_calls (\<lambda>dev. exchangeTokenPromise sns dev platformArn) devices
      = (map ?create devices, Inr (map ?answer devices))"
    using raw by (rule map_calls_exchange_raw)
  from failed have "?answer dev = Rejected (fst (createPlatformEndpoint sns
      \<lparr>PlatformApplicationArn = platformArn, Token = deviceToken dev\<rparr>))"
    by (rule exchangeCallback_rejects)
  then have "Rejected (fst (createPlatformEndpoint sns
      \<lparr>PlatformApplicationArn = platformArn, Token = deviceToken dev\<rparr>)) = ?answer dev"
    by simp
  with member have rejected: "Rejected (fst (createPlatformEndpoint sns
      \<lparr>PlatformApplicationArn = platformArn, Token = deviceToken dev\<rparr>)) \<in> set (map ?answer devices)"
    by (simp only: set_map image_eqI)
  have "Pending \<notin> set (map ?answer devices)"
    by (rule exchange_answers_settle)
  from this rejected have "Promise_when (map ?answer devices) = Rejected (when_errors (map ?answer devices))"
    by (rule Promise_when_rejects)
  then show ?thesis
    by (simp add: sendToSNS_def exchange)
qed

text \<open>
  Claim C4, as stated, fails: the exchange callback tests the data of the answer, never
  its error. The provider \<open>sns_create_warns_for\<close> answers the create-endpoint request
  of one device with an error together with an endpoint identifier; the group's promise
  resolves and both devices are published to.
\<close>

theorem create_error_with_endpoint_counterexample:
  "fst (createPlatformEndpoint (sns_create_warns_for ''tokB'')
          \<lparr>PlatformApplicationArn = Some ''app/ios-a'', Token = deviceToken ios_b\<rparr>)
     = Some example_error
   \<and> snd (sendToSNS example_libs (sns_create_warns_for ''tokB'') [] [ios_a, ios_b]
          (Some ''app/ios-a'')) = Inr (Resolved ())
   \<and> filter is_publish (fst (sendToSNS example_libs (sns_create_warns_for ''tokB'') [] [ios_a, ios_b]
          (Some ''app/ios-a'')))
     = [Publish \<lparr>Message = [], MessageStructure = ''json'',
                 TargetArn = Some ''endpoint/tokA'', TopicArn = None\<rparr>,
        Publish \<lparr>Message = [], MessageStructure = ''json'',
                 TargetArn = Some ''endpoint/tokB'', TopicArn = None\<rparr>]"
  by (simp add: sendToSNS_def exchangeTokenPromise_def getPlatformArn_def exchangeCallback_def
      Promise_when_def sendSNSPayload_def enableCallback_def publishCallback_def
      ios_a_def ios_b_def sns_create_warns_for_def sns_accepting_def example_libs_def
      startsWith_def truthy_string_def Let_def)

text \<open>
  Claim C4, amended. For every platform/bundle group of devices with raw (non-handle)
  tokens, resolution issues one create-endpoint request per device, in device order; and
  if the answer to the create-endpoint request of any one device carries no endpoint
  identifier (null data, or data without \<^verbatim>\<open>EndpointArn\<close>, with or without an error), the
  promise of the group is rejected and neither a publish nor a set-endpoint-attributes
  request is issued for any device of the group.
\<close>

theorem exchange_phase_fail_fast:
  assumes raw: "\<forall>dev\<in>set devices. \<exists>tok. deviceToken dev = Some tok \<and> \<not> startsWith tok ''arn''"
  shows "filter is_create (fst (sendToSNS L sns payload devices platformArn))
           = map (\<lambda>dev. CreatePlatformEndpoint
                    \<lparr>PlatformApplicationArn = platformArn, Token = deviceToken dev\<rparr>) devices
         \<and> (dev \<in> set devices
              \<and> \<not> endpointReturned (createPlatformEndpoint sns
                    \<lparr>PlatformApplicationArn = platformArn, Token = deviceToken dev\<rparr>) \<longrightarrow>
              (\<exists>errors. snd (sendToSNS L sns payload devices platformArn)
                           = Inr (Rejected (ExchangeErrors errors)))
              \<and> filter is_publish (fst (sendToSNS L sns payload devices platformArn)) = []
              \<and> filter is_enable (fst (sendToSNS L sns payload devices platformArn)) = [])"
proof -
  have "filter is_publish (fst (sendToSNS L sns payload devices platformArn)) = []
      \<and> filter is_enable (fst (sendToSNS L sns payload devices platformArn)) = []
      \<and> (\<exists>errors. snd (sendToSNS L sns payload devices platformArn)
                           = Inr (Rejected (ExchangeErrors errors)))"
    if "dev \<in> set devices" and "\<not> endpointReturned (createPlatformEndpoint sns
        \<lparr>PlatformApplicationArn = platformArn, Token = deviceToken dev\<rparr>)"
    using sendToSNS_raw_failure [OF raw that, of L payload]
    by (simp add: filter_empty_conv)
  with sendToSNS_raw_calls [OF raw] show ?thesis
    by blast
qed

theorem exchange_phase_fail_fast_witness:
  "sendToSNS example_libs (sns_create_fails_for ''tokB'') [] [ios_a, ios_b] (Some ''app/ios-a'')
     = ([CreatePlatformEndpoint \<lparr>PlatformApplicationArn = Some ''app/ios-a'', Token = Some ''tokA''\<rparr>,
         CreatePlatformEndpoint \<lparr>PlatformApplicationArn = Some ''app/ios-a'', Token = Some ''tokB''\<rparr>],
        Inr (Rejected (ExchangeErrors [None, Some (Some example_error)])))
   \<and> filter is_create (fst (sendToSNS example_libs (sns_create_fails_for ''tokB'') [] [ios_a, ios_b]
          (Some ''app/ios-a'')))
     = [CreatePlatformEndpoint \<lparr>PlatformApplicationArn = Some ''app/ios-a'', Token = Some ''tokA''\<rparr>,
        CreatePlatformEndpoint \<lparr>PlatformApplicationArn = Some ''app/ios-a'', Token = Some ''tokB''\<rparr>]
   \<and> filter is_publish (fst (sendToSNS example_libs (sns_create_fails_for ''tokB'') [] [ios_a, ios_b]
          (Some ''app/ios-a''))) = []"
proof -
  have raw: "\<forall>dev\<in>set [ios_a, ios_b]. \<exists>tok. deviceToken dev = Some tok \<and> \<not> startsWith tok ''arn''"
    by (simp add: ios_a_def ios_b_def startsWith_def)
  have failed: "ios_b \<in> set [ios_a, ios_b]
      \<and> \<not> endpointReturned (createPlatformEndpoint (sns_create_fails_for ''tokB'')
            \<lparr>PlatformApplicationArn = Some ''app/ios-a'', Token = deviceToken ios_b\<rparr>)"
    by (simp add: ios_b_def sns_create_fails_for_def endpointReturned_def)
  have run: "sendToSNS example_libs (sns_create_fails_for ''tokB'') [] [ios_a, ios_b] (Some ''app/ios-a'')
     = ([CreatePlatformEndpoint \<lparr>PlatformApplicationArn = Some ''app/ios-a'', Token = Some ''tokA''\<rparr>,
         CreatePlatformEndpoint \<lparr>PlatformApplicationArn = Some ''app/ios-a'', Token = Some ''tokB''\<rparr>],
        Inr (Rejected (ExchangeErrors [None, Some (Some example_error)])))"
    by (simp add: sendToSNS_def exchangeTokenPromise_def getPlatformArn_def exchangeCallback_def
        Promise_when_def ios_a_def ios_b_def sns_create_fails_for_def sns_accepting_def
        startsWith_def truthy_string_def)
  from run failed
    exchange_phase_fail_fast [OF raw, of example_libs "sns_create_fails_for ''tokB''" "[]"
      "Some ''app/ios-a''" ios_b]
  show ?thesis
    by simp
qed

section \<open>Properties of the iOS sender\<close>

lemma deviceSends_member:
  "dev \<in> set (deviceSends iosConfig devices) \<longleftrightarrow>
     dev \<in> set devices
     \<and> (\<not> truthy_string (appIdentifier dev) \<or> appIdentifier dev = bundleId iosConfig)"
  by (auto simp: deviceSends_def bundleAccepts_def truthy_string_def)

lemma map_calls_returns:
  assumes "\<And>x. x \<in> set xs \<Longrightarrow> \<exists>calls y. f x = (calls, Inr y)"
  shows "\<exists>calls ys. map_calls f xs = (calls, Inr ys)"
  using assms
proof (induction xs)
  case Nil
  then show ?case by simp
next
  case (Cons x xs)
  obtain calls y where first: "f x = (calls, Inr y)"
    using Cons.prems [of x] by auto
  have "\<exists>calls ys. map_calls f xs = (calls, Inr ys)"
    by (rule Cons.IH, rule Cons.prems) simp
  then obtain calls' ys where "map_calls f xs = (calls', Inr ys)"
    by blast
  with first show ?case
    by simp
qed

lemma exchangeTokenPromise_returns:
  "deviceToken dev \<noteq> None \<Longrightarrow> \<exists>calls p. exchangeTokenPromise sns dev platformArn = (calls, Inr p)"
  by (auto simp: exchangeTokenPromise_def getPlatformArn_def Let_def split: option.splits)

lemma sendToSNS_returns:
  assumes "\<forall>dev\<in>set devices. deviceToken dev \<noteq> None"
  shows "\<exists>calls p. sendToSNS L sns payload devices platformArn = (calls, Inr p)"
proof -
  have "\<exists>calls ps. map_calls (\<lambda>dev. exchangeTokenPromise sns dev platformArn) devices
      = (calls, Inr ps)"
    by (rule map_calls_returns) (simp add: assms exchangeTokenPromise_returns)
  then obtain calls ps where "map_calls (\<lambda>dev. exchangeTokenPromise sns dev platformArn) devices
      = (calls, Inr ps)"
    by blast
  then show ?thesis
    by (simp add: sendToSNS_def split: promise.splits prod.splits sum.splits)
qed

lemma sendToSNS_no_devices: "sendToSNS L sns payload [] platformArn = ([], Inr (Resolved ()))"
  by (simp add: sendToSNS_def Promise_when_def)

lemma sendToAPNS_loop_groups:
  assumes tokens: "\<forall>dev\<in>set devices. deviceToken dev \<noteq> None"
  shows "\<exists>promises. sendToAPNS_loop L sns d devices iosConfigs
           = (concat (map (\<lambda>c. fst (sendToSNS L sns
                  (generateiOSPayload L d (case production c of None \<Rightarrow> False | Some b \<Rightarrow> b))
                  (deviceSends c devices) (ARN c))) iosConfigs),
              Inr promises)"
proof (induction iosConfigs)
  case Nil
  then show ?case by simp
next
  case (Cons c rest)
  let ?payload = "generateiOSPayload L d (case production c of None \<Rightarrow> False | Some b \<Rightarrow> b)"
  from Cons obtain promises where rest: "sendToAPNS_loop L sns d devices rest
      = (concat (map (\<lambda>c. fst (sendToSNS L sns
                  (generateiOSPayload L d (case production c of None \<Rightarrow> False | Some b \<Rightarrow> b))
                  (deviceSends c devices) (ARN c))) rest), Inr promises)"
    by blast
  have "\<forall>dev\<in>set (deviceSends c devices). deviceToken dev \<noteq> None"
    using tokens by (simp add: deviceSends_def)
  then obtain calls p where group:
      "sendToSNS L sns ?payload (deviceSends c devices) (ARN c) = (calls, Inr p)"
    using sendToSNS_returns by blast
  show ?case
  proof (cases "deviceSends c devices = []")
    case True
    with rest show ?thesis
      by (simp add: sendToSNS_no_devices)
  next
    case False
    with rest group show ?thesis
      by simp
  qed
qed


lemma sendToAPNS_groups:
  assumes "snsConfig self = Some cfg" and "map_of cfg ''ios'' = Some iosPushConfig"
    and "\<forall>dev\<in>set devices. deviceToken dev \<noteq> None"
  shows "fst (sendToAPNS L sns self d devices)
           = concat (map (\<lambda>c. fst (sendToSNS L sns
                 (generateiOSPayload L d (case production c of None \<Rightarrow> False | Some b \<Rightarrow> b))
                 (deviceSends c devices) (ARN c)))
               (case iosPushConfig of Config c \<Rightarrow> [c] | ConfigArray cs \<Rightarrow> cs))"
proof (cases iosPushConfig)
  case (Config c)
  with assms(1,2) have "sendToAPNS L sns self d devices = sendToAPNS_loop L sns d devices [c]"
    by (simp add: sendToAPNS_def)
  with Config sendToAPNS_loop_groups [OF assms(3), of L sns d "[c]"] show ?thesis
    by auto
next
  case (ConfigArray cs)
  with assms(1,2) have "sendToAPNS L sns self d devices = sendToAPNS_loop L sns d devices cs"
    by (simp add: sendToAPNS_def)
  with ConfigArray sendToAPNS_loop_groups [OF assms(3), of L sns d cs] show ?thesis
    by auto
qed

lemma deviceSends_raw_creates:
  assumes "\<forall>dev\<in>set devices. \<exists>tok. deviceToken dev = Some tok \<and> \<not> startsWith tok ''arn''"
  shows "filter is_create (fst (sendToSNS L sns payload (deviceSends c devices) platformArn))
           = map (\<lambda>dev. CreatePlatformEndpoint
                    \<lparr>PlatformApplicationArn = platformArn, Token = deviceToken dev\<rparr>)
               (deviceSends c devices)"
proof (rule sendToSNS_raw_calls)
  show "\<forall>dev\<in>set (deviceSends c devices).
      \<exists>tok. deviceToken dev = Some tok \<and> \<not> startsWith tok ''arn''"
    using assms by (simp add: deviceSends_def)
qed


text \<open>
  Claim C5. \<^verbatim>\<open>sendToAPNS\<close> hands each iOS bundle configuration its own send subset of the
  devices: the requests it issues are, bundle after bundle, those of \<^verbatim>\<open>sendToSNS\<close> on the
  subset \<open>deviceSends\<close> of that bundle under the bundle's \<^verbatim>\<open>ARN\<close> (for devices that carry
  a token), so that with raw tokens the create-endpoint requests under a bundle's
  \<^verbatim>\<open>ARN\<close> are those of the subset's devices. For every bundle configuration the subset
  keeps, in input order, the installations whose \<^verbatim>\<open>appIdentifier\<close> is absent or empty or
  equals the bundle identifier: an installation whose \<^verbatim>\<open>appIdentifier\<close> is absent or empty
  is in every bundle's subset, and an installation with a non-empty \<^verbatim>\<open>appIdentifier\<close>
  \<open>X\<close> is in the subset of a bundle exactly when the bundle identifier is \<open>X\<close>.
\<close>

theorem sendToAPNS_bundle_subsets:
  assumes "snsConfig self = Some cfg" and "map_of cfg ''ios'' = Some iosPushConfig"
  shows "((\<forall>dev\<in>set devices. deviceToken dev \<noteq> None) \<longrightarrow>
            fst (sendToAPNS L sns self d devices)
              = concat (map (\<lambda>c. fst (sendToSNS L sns
                    (generateiOSPayload L d (case production c of None \<Rightarrow> False | Some b \<Rightarrow> b))
                    (deviceSends c devices) (ARN c)))
                  (case iosPushConfig of Config c \<Rightarrow> [c] | ConfigArray cs \<Rightarrow> cs)))
         \<and> ((\<forall>dev\<in>set devices. \<exists>tok. deviceToken dev = Some tok \<and> \<not> startsWith tok ''arn'') \<longrightarrow>
            filter is_create (fst (sendToAPNS L sns self d devices))
              = concat (map (\<lambda>c. map (\<lambda>dev. CreatePlatformEndpoint
                    \<lparr>PlatformApplicationArn = ARN c, Token = deviceToken dev\<rparr>)
                    (deviceSends c devices))
                  (case iosPushConfig of Config c \<Rightarrow> [c] | ConfigArray cs \<Rightarrow> cs)))
         \<and> deviceSends iosConfig devices
              = filter (\<lambda>dev. \<not> truthy_string (appIdentifier dev)
                              \<or> appIdentifier dev = bundleId iosConfig) devices
         \<and> (dev \<in> set devices \<and> \<not> truthy_string (appIdentifier dev) \<longrightarrow>
              dev \<in> set (deviceSends iosConfig devices))
         \<and> (dev \<in> set devices \<and> appIdentifier dev = Some X \<and> X \<noteq> [] \<longrightarrow>
              (dev \<in> set (deviceSends iosConfig devices) \<longleftrightarrow> bundleId iosConfig = Some X))"
proof -
  have groups: "fst (sendToAPNS L sns self d devices)
      = concat (map (\<lambda>c. fst (sendToSNS L sns
            (generateiOSPayload L d (case production c of None \<Rightarrow> False | Some b \<Rightarrow> b))
            (deviceSends c devices) (ARN c)))
          (case iosPushConfig of Config c \<Rightarrow> [c] | ConfigArray cs \<Rightarrow> cs))"
    if "\<forall>dev\<in>set devices. deviceToken dev \<noteq> None"
    using assms that by (rule sendToAPNS_groups)
  have creates: "filter is_create (fst (sendToAPNS L sns self d devices))
      = concat (map (\<lambda>c. map (\<lambda>dev. CreatePlatformEndpoint
            \<lparr>PlatformApplicationArn = ARN c, Token = deviceToken dev\<rparr>) (deviceSends c devices))
          (case iosPushConfig of Config c \<Rightarrow> [c] | ConfigArray cs \<Rightarrow> cs))"
    if raw: "\<forall>dev\<in>set devices. \<exists>tok. deviceToken dev = Some tok \<and> \<not> startsWith tok ''arn''"
  proof -
    from raw have "\<forall>dev\<in>set devices. deviceToken dev \<noteq> None"
      by auto
    then show ?thesis
      by (simp add: groups filter_concat comp_def deviceSends_raw_creates [OF raw])
  qed
  have subset: "deviceSends iosConfig devices
      = filter (\<lambda>dev. \<not> truthy_string (appIdentifier dev)
                      \<or> appIdentifier dev = bundleId iosConfig) devices"
    unfolding deviceSends_def
    by (rule filter_cong) (auto simp: bundleAccepts_def truthy_string_def)
  have absent: "dev \<in> set (deviceSends iosConfig devices)"
    if "dev \<in> set devices" and "\<not> truthy_string (appIdentifier dev)"
    using that by (simp add: deviceSends_member)
  have bundled: "dev \<in> set (deviceSends iosConfig devices) \<longleftrightarrow> bundleId iosConfig = Some X"
    if "dev \<in> set devices" and "appIdentifier dev = Some X" and "X \<noteq> []"
    using that by (auto simp: deviceSends_member truthy_string_def)
  from groups creates subset absent bundled show ?thesis
    by blast
qed

theorem sendToAPNS_bundle_subsets_witness:
  "filter is_create (fst (sendToAPNS example_libs sns_accepting two_bundle_adapter example_data
      [ios_a, ios_b, ios_unbundled]))
     = [CreatePlatformEndpoint \<lparr>PlatformApplicationArn = Some ''app/ios-a'', Token = Some ''tokA''\<rparr>,
        CreatePlatformEndpoint \<lparr>PlatformApplicationArn = Some ''app/ios-a'', Token = Some ''tokU''\<rparr>,
        CreatePlatformEndpoint \<lparr>PlatformApplicationArn = Some ''app/ios-b'', Token = Some ''tokB''\<rparr>,
        CreatePlatformEndpoint \<lparr>PlatformApplicationArn = Some ''app/ios-b'', Token = Some ''tokU''\<rparr>]
   \<and> ios_unbundled \<in> set (deviceSends bundle_a [ios_a, ios_b, ios_unbundled])
   \<and> ios_unbundled \<in> set (deviceSends bundle_b [ios_a, ios_b, ios_unbundled])
   \<and> ios_b \<in> set (deviceSends bundle_b [ios_a, ios_b, ios_unbundled])
   \<and> ios_b \<notin> set (deviceSends bundle_a [ios_a, ios_b, ios_unbundled])"
proof -
  have cfg: "snsConfig two_bundle_adapter = Some [(''ios'', ConfigArray [bundle_a, bundle_b])]"
    by (simp add: two_bundle_adapter_def)
  have ios: "map_of [(''ios'', ConfigArray [bundle_a, bundle_b])] ''ios''
      = Some (ConfigArray [bundle_a, bundle_b])"
    by simp
  have raw: "\<forall>dev\<in>set [ios_a, ios_b, ios_unbundled].
      \<exists>tok. deviceToken dev = Some tok \<and> \<not> startsWith tok ''arn''"
    by (simp add: ios_a_def ios_b_def ios_unbundled_def startsWith_def)
  have sends: "deviceSends bundle_a [ios_a, ios_b, ios_unbundled] = [ios_a, ios_unbundled]"
    "deviceSends bundle_b [ios_a, ios_b, ios_unbundled] = [ios_b, ios_unbundled]"
    by (simp_all add: deviceSends_def bundleAccepts_def truthy_string_def ios_a_def ios_b_def
        ios_unbundled_def bundle_a_def bundle_b_def)
  have facts: "deviceToken ios_a = Some ''tokA''" "deviceToken ios_b = Some ''tokB''"
    "deviceToken ios_unbundled = Some ''tokU''" "ARN bundle_a = Some ''app/ios-a''"
    "ARN bundle_b = Some ''app/ios-b''" "appIdentifier ios_unbundled = None"
    "appIdentifier ios_b = Some ''com.b''" "bundleId bundle_a = Some ''com.a''"
    "bundleId bundle_b = Some ''com.b''"
    by (simp_all add: ios_a_def ios_b_def ios_unbundled_def bundle_a_def bundle_b_def)
  note at_a = sendToAPNS_bundle_subsets [OF cfg ios, of "[ios_a, ios_b, ios_unbundled]"
      example_libs sns_accepting example_data bundle_a ios_unbundled "''com.b''"]
  note at_b = sendToAPNS_bundle_subsets [OF cfg ios, of "[ios_a, ios_b, ios_unbundled]"
      example_libs sns_accepting example_data bundle_b ios_b "''com.b''"]
  note b_at_a = sendToAPNS_bundle_subsets [OF cfg ios, of "[ios_a, ios_b, ios_unbundled]"
      example_libs sns_accepting example_data bundle_a ios_b "''com.b''"]
  note u_at_b = sendToAPNS_bundle_subsets [OF cfg ios, of "[ios_a, ios_b, ios_unbundled]"
      example_libs sns_accepting example_data bundle_b ios_unbundled "''com.b''"]
  have "filter is_create (fst (sendToAPNS example_libs sns_accepting two_bundle_adapter
      example_data [ios_a, ios_b, ios_unbundled]))
      = concat (map (\<lambda>c. map (\<lambda>dev. CreatePlatformEndpoint
            \<lparr>PlatformApplicationArn = ARN c, Token = deviceToken dev\<rparr>)
            (deviceSends c [ios_a, ios_b, ios_unbundled])) [bundle_a, bundle_b])"
    using at_a [THEN conjunct2, THEN conjunct1] raw by simp
  then have creates: "filter is_create (fst (sendToAPNS example_libs sns_accepting
      two_bundle_adapter example_data [ios_a, ios_b, ios_unbundled]))
     = [CreatePlatformEndpoint \<lparr>PlatformApplicationArn = Some ''app/ios-a'', Token = Some ''tokA''\<rparr>,
        CreatePlatformEndpoint \<lparr>PlatformApplicationArn = Some ''app/ios-a'', Token = Some ''tokU''\<rparr>,
        CreatePlatformEndpoint \<lparr>PlatformApplicationArn = Some ''app/ios-b'', Token = Some ''tokB''\<rparr>,
        CreatePlatformEndpoint \<lparr>PlatformApplicationArn = Some ''app/ios-b'', Token = Some ''tokU''\<rparr>]"
    by (simp add: sends facts)
  have member_b: "ios_b \<in> set [ios_a, ios_b, ios_unbundled]"
    and member_u: "ios_unbundled \<in> set [ios_a, ios_b, ios_unbundled]"
    by simp_all
  have absent: "\<not> truthy_string (appIdentifier ios_unbundled)"
    by (simp add: facts truthy_string_def)
  have named: "appIdentifier ios_b = Some ''com.b''" and nonempty: "''com.b'' \<noteq> []"
    and same: "bundleId bundle_b = Some ''com.b''" and other: "bundleId bundle_a \<noteq> Some ''com.b''"
    by (simp_all add: facts)
  have unbundled_a: "ios_unbundled \<in> set (deviceSends bundle_a [ios_a, ios_b, ios_unbundled])"
    using at_a [THEN conjunct2, THEN conjunct2, THEN conjunct2, THEN conjunct1] member_u absent
    by blast
  have unbundled_b: "ios_unbundled \<in> set (deviceSends bundle_b [ios_a, ios_b, ios_unbundled])"
    using u_at_b [THEN conjunct2, THEN conjunct2, THEN conjunct2, THEN conjunct1] member_u absent
    by blast
  have b_in_b: "ios_b \<in> set (deviceSends bundle_b [ios_a, ios_b, ios_unbundled])"
    using at_b [THEN conjunct2, THEN conjunct2, THEN conjunct2, THEN conjunct2]
      member_b named nonempty same
    by blast
  have b_not_in_a: "ios_b \<notin> set (deviceSends bundle_a [ios_a, ios_b, ios_unbundled])"
    using b_at_a [THEN conjunct2, THEN conjunct2, THEN conjunct2, THEN conjunct2]
      member_b named nonempty other
    by blast
  from creates unbundled_a unbundled_b b_in_b b_not_in_a show ?thesis
    by blast
qed

section \<open>Properties of construction\<close>

lemma registerPushTypes_unsupported:
  assumes "\<exists>p\<in>set rest. p \<notin> set (validPushTypes self)"
  shows "registerPushTypes allTypes rest self
           = Inl \<lparr>error_code = PUSH_MISCONFIGURED,
                  error_message = ''Push to '' @ array_toString allTypes @ '' is not supported''\<rparr>"
  using assms
  by (induction rest arbitrary: self) (auto simp: Let_def)

lemma sublist_extend:
  assumes "sublist p ys"
  shows "sublist p (xs @ ys @ zs)"
proof -
  from assms obtain ps ss where "ys = ps @ p @ ss"
    by (auto simp: sublist_def)
  then have "xs @ ys @ zs = (xs @ ps) @ p @ (ss @ zs)"
    by simp
  then show ?thesis
    unfolding sublist_def by blast
qed

lemma sublist_array_toString: "p \<in> set xs \<Longrightarrow> sublist p (array_toString xs)"
proof (induction xs rule: array_toString.induct)
  case 1
  then show ?case by simp
next
  case (2 x)
  then show ?case by simp
next
  case (3 x y ys)
  show ?case
  proof (cases "p = x")
    case True
    then show ?thesis by simp
  next
    case False
    with 3 have "sublist p (array_toString (y # ys))"
      by simp
    then have "sublist p ((x @ '','') @ array_toString (y # ys) @ [])"
      by (rule sublist_extend)
    then show ?thesis
      by simp
  qed
qed

text \<open>
  Claim C8, as stated, fails: a configuration that names the unsupported platform
  \<^verbatim>\<open>windows\<close> and lacks the access key is refused for the missing key, before the
  platforms are looked at; the message does not name \<^verbatim>\<open>windows\<close>.
\<close>

theorem keyless_unsupported_platform_counterexample:
  "pushTypes keyless_windows_config
     = Some [(''ios'', Config bundle_a), (''windows'', Config android_config)]
   \<and> SNSPushAdapter keyless_windows_config
     = Inl \<lparr>error_code = PUSH_MISCONFIGURED, error_message = ''Need to provide AWS keys''\<rparr>
   \<and> \<not> sublist ''windows'' ''Need to provide AWS keys''"
proof -
  have "\<not> sublist ''windows'' ''Need to provide AWS keys''"
    by (simp add: sublist_Cons_right)
  then show ?thesis
    by (simp add: SNSPushAdapter_def keyless_windows_config_def windows_config_def truthy_string_def)
qed

text \<open>
  Claim C8, amended. For every configuration whose platform set contains a platform
  outside \<^verbatim>\<open>ios\<close> and \<^verbatim>\<open>android\<close>, construction fails with a \<^verbatim>\<open>PUSH_MISCONFIGURED\<close>
  error; when both AWS keys are supplied, its message names that unsupported platform
  (the name is part of the message), and when a key is missing its message is
  \<^verbatim>\<open>Need to provide AWS keys\<close>.
\<close>

theorem unsupported_platform_rejected:
  assumes "pushTypes cfg = Some pts" and "p \<in> set (map fst pts)" and "p \<notin> {''ios'', ''android''}"
  shows "\<exists>e. SNSPushAdapter cfg = Inl e \<and> error_code e = PUSH_MISCONFIGURED
           \<and> (if truthy_string (accessKey cfg) \<and> truthy_string (secretKey cfg)
               then sublist p (error_message e)
               else error_message e = ''Need to provide AWS keys'')"
proof -
  let ?self = "\<lparr>validPushTypes = [''ios'', ''android''], availablePushTypes = [],
      snsConfig = pushTypes cfg, senderMap = [], awsConfig = None\<rparr>"
  from assms(2,3) have "\<exists>q\<in>set (map fst pts). q \<notin> set (validPushTypes ?self)"
    by auto
  then have loop: "registerPushTypes (map fst pts) (map fst pts) ?self
      = Inl \<lparr>error_code = PUSH_MISCONFIGURED,
             error_message = ''Push to '' @ array_toString (map fst pts) @ '' is not supported''\<rparr>"
    by (rule registerPushTypes_unsupported)
  have named: "sublist p (''Push to '' @ array_toString (map fst pts) @ '' is not supported'')"
    using sublist_array_toString [OF assms(2)] by (rule sublist_extend)
  show ?thesis
  proof (cases "truthy_string (accessKey cfg) \<and> truthy_string (secretKey cfg)")
    case True
    then have "SNSPushAdapter cfg
        = Inl \<lparr>error_code = PUSH_MISCONFIGURED,
               error_message = ''Push to '' @ array_toString (map fst pts) @ '' is not supported''\<rparr>"
      using loop assms(1) by (simp add: SNSPushAdapter_def)
    with True named show ?thesis
      by simp
  next
    case False
    then have "SNSPushAdapter cfg
        = Inl \<lparr>error_code = PUSH_MISCONFIGURED, error_message = ''Need to provide AWS keys''\<rparr>"
      by (auto simp: SNSPushAdapter_def)
    with False show ?thesis
      by auto
  qed
qed

theorem unsupported_platform_rejected_witness:
  "(\<exists>e. SNSPushAdapter windows_config = Inl e \<and> error_code e = PUSH_MISCONFIGURED
        \<and> sublist ''windows'' (error_message e))
   \<and> (\<exists>e. SNSPushAdapter keyless_windows_config = Inl e \<and> error_code e = PUSH_MISCONFIGURED
        \<and> error_message e = ''Need to provide AWS keys'')"
proof -
  have cfg: "pushTypes windows_config
      = Some [(''ios'', Config bundle_a), (''windows'', Config android_config)]"
    by (simp add: windows_config_def)
  have keyless_cfg: "pushTypes keyless_windows_config
      = Some [(''ios'', Config bundle_a), (''windows'', Config android_config)]"
    by (simp add: keyless_windows_config_def windows_config_def)
  have member: "''windows'' \<in> set (map fst [(''ios'', Config bundle_a), (''windows'', Config android_config)])"
    by simp
  have unsupported: "''windows'' \<notin> {''ios'', ''android''}"
    by simp
  have keys: "truthy_string (accessKey windows_config) \<and> truthy_string (secretKey windows_config)"
    by (simp add: windows_config_def truthy_string_def)
  have no_key: "\<not> truthy_string (accessKey keyless_windows_config)"
    by (simp add: keyless_windows_config_def truthy_string_def)
  from keys no_key
    unsupported_platform_rejected [OF cfg member unsupported]
    unsupported_platform_rejected [OF keyless_cfg member unsupported]
  show ?thesis
    by simp
qed

section \<open>Properties of the entry point\<close>

lemma send_installations:
  "fst (send L sns self d installations)
     = (case installations of ArnObject arnList \<Rightarrow> map retarget arnList | InstallationArray xs \<Rightarrow> xs)"
  by (simp add: send_def Let_def split: prod.splits sum.splits)

lemma send_promise:
  "snd (snd (send L sns self d installations)) = Inr p \<Longrightarrow> p = Resolved None"
  by (auto simp: send_def Let_def split: prod.splits sum.splits)

text \<open>
  Claim C9, as stated, fails: handed an object with an \<^verbatim>\<open>arn\<close> list, \<^verbatim>\<open>send\<close> overwrites
  the \<^verbatim>\<open>deviceToken\<close> of each listed installation with its \<^verbatim>\<open>topicArn\<close>.
\<close>

theorem send_retargets_counterexample:
  "deviceToken subscriber = Some ''tokS''
   \<and> map deviceToken (fst (send example_libs sns_accepting scenario_adapter example_data
          (ArnObject [subscriber]))) = [Some ''arn:aws:sns:news'']"
  by (simp add: send_installations retarget_def subscriber_def)

text \<open>
  Claim C9, amended. For every notification, \<^verbatim>\<open>send\<close> leaves the installation records of
  a plain installation array unchanged; handed an object with an \<^verbatim>\<open>arn\<close> list, it
  overwrites the \<^verbatim>\<open>deviceToken\<close> of each listed installation with that installation's
  \<^verbatim>\<open>topicArn\<close> and changes no other field.
\<close>

theorem send_installations_effect:
  "fst (send L sns self d (InstallationArray xs)) = xs
   \<and> fst (send L sns self d (ArnObject xs)) = map (\<lambda>i. i\<lparr>deviceToken := topicArn i\<rparr>) xs
   \<and> map deviceType (fst (send L sns self d (ArnObject xs))) = map deviceType xs
   \<and> map appIdentifier (fst (send L sns self d (ArnObject xs))) = map appIdentifier xs
   \<and> map topicArn (fst (send L sns self d (ArnObject xs))) = map topicArn xs"
  by (simp add: send_installations retarget_def)

theorem send_installations_effect_witness:
  "fst (send example_libs sns_accepting scenario_adapter example_data
          (InstallationArray scenario_installations)) = scenario_installations
   \<and> fst (send example_libs sns_accepting scenario_adapter example_data (ArnObject [subscriber]))
     = [subscriber\<lparr>deviceToken := Some ''arn:aws:sns:news''\<rparr>]"
  using send_installations_effect [of example_libs sns_accepting scenario_adapter example_data
      scenario_installations]
    send_installations_effect [of example_libs sns_accepting scenario_adapter example_data
      "[subscriber]"]
  by (simp add: subscriber_def)

text \<open>
  The end-to-end scenario: the adapter constructed from \<open>scenario_config\<close>, two iOS
  devices (one of bundle \<^verbatim>\<open>com.a\<close>, one without \<^verbatim>\<open>appIdentifier\<close>) and one Android
  device, against a provider that accepts every request.
\<close>

lemma scenario_construction: "SNSPushAdapter scenario_config = Inr scenario_adapter"
  by (simp add: SNSPushAdapter_def scenario_config_def scenario_adapter_def truthy_string_def
      DEFAULT_REGION_def)

lemma scenario_classified:
  "utils_classifyInstallations scenario_installations (availablePushTypes scenario_adapter)
     = [(''ios'', [ios_a, ios_unbundled]), (''android'', [android_1])]"
  by (simp add: utils_classifyInstallations_def scenario_installations_def scenario_adapter_def
      ios_a_def ios_unbundled_def android_1_def)

lemma scenario_ios_group:
  "sendToSNS L sns_accepting payload [ios_a, ios_unbundled] (Some ''app/ios-a'')
     = ([CreatePlatformEndpoint \<lparr>PlatformApplicationArn = Some ''app/ios-a'', Token = Some ''tokA''\<rparr>,
         CreatePlatformEndpoint \<lparr>PlatformApplicationArn = Some ''app/ios-a'', Token = Some ''tokU''\<rparr>,
         SetEndpointAttributes \<lparr>Attributes_Enabled = ''true'', params_EndpointArn = Some ''endpoint/tokA''\<rparr>,
         Publish \<lparr>Message = json_stringify L (JObj payload), MessageStructure = ''json'',
                  TargetArn = Some ''endpoint/tokA'', TopicArn = None\<rparr>,
         SetEndpointAttributes \<lparr>Attributes_Enabled = ''true'', params_EndpointArn = Some ''endpoint/tokU''\<rparr>,
         Publish \<lparr>Message = json_stringify L (JObj payload), MessageStructure = ''json'',
                  TargetArn = Some ''endpoint/tokU'', TopicArn = None\<rparr>],
        Inr (Resolved ()))"
  by (simp add: sendToSNS_def exchangeTokenPromise_def getPlatformArn_def exchangeCallback_def
      Promise_when_def sendSNSPayload_def enableCallback_def publishCallback_def
      ios_a_def ios_unbundled_def sns_accepting_def startsWith_def truthy_string_def Let_def)

lemma scenario_android_group:
  "sendToSNS L sns_accepting payload [android_1] (Some ''app/android'')
     = ([CreatePlatformEndpoint \<lparr>PlatformApplicationArn = Some ''app/android'', Token = Some ''tokG''\<rparr>,
         SetEndpointAttributes \<lparr>Attributes_Enabled = ''true'', params_EndpointArn = Some ''endpoint/tokG''\<rparr>,
         Publish \<lparr>Message = json_stringify L (JObj payload), MessageStructure = ''json'',
                  TargetArn = Some ''endpoint/tokG'', TopicArn = None\<rparr>],
        Inr (Resolved ()))"
  by (simp add: sendToSNS_def exchangeTokenPromise_def getPlatformArn_def exchangeCallback_def
      Promise_when_def sendSNSPayload_def enableCallback_def publishCallback_def
      android_1_def sns_accepting_def startsWith_def truthy_string_def Let_def)

lemma scenario_bundle: "deviceSends bundle_a [ios_a, ios_unbundled] = [ios_a, ios_unbundled]"
  by (simp add: deviceSends_def bundleAccepts_def bundle_a_def ios_a_def ios_unbundled_def
      truthy_string_def)


lemma scenario_apns:
  "sendToAPNS L sns_accepting scenario_adapter d [ios_a, ios_unbundled]
     = (fst (sendToSNS L sns_accepting (generateiOSPayload L d True) [ios_a, ios_unbundled]
               (Some ''app/ios-a'')),
        Inr [Resolved ()])"
proof -
  have "sendToAPNS L sns_accepting scenario_adapter d [ios_a, ios_unbundled]
      = sendToAPNS_loop L sns_accepting d [ios_a, ios_unbundled] [bundle_a]"
    by (simp add: sendToAPNS_def scenario_adapter_def scenario_config_def)
  also have "\<dots> = (fst (sendToSNS L sns_accepting (generateiOSPayload L d True)
      [ios_a, ios_unbundled] (Some ''app/ios-a'')), Inr [Resolved ()])"
    using scenario_ios_group [of L "generateiOSPayload L d True"]
    by (simp add: scenario_bundle) (simp add: bundle_a_def)
  finally show ?thesis .
qed

lemma scenario_gcm:
  "sendToGCM L sns_accepting scenario_adapter d [android_1]
     = (fst (sendToSNS L sns_accepting (generateAndroidPayload L d None None) [android_1]
               (Some ''app/android'')),
        Inr (Resolved ()))"
  using scenario_android_group [of L "generateAndroidPayload L d None None"]
  by (simp add: sendToGCM_def scenario_adapter_def scenario_config_def android_config_def)

lemma scenario_senders:
  "map_of (senderMap scenario_adapter) ''ios'' = Some SendToAPNS"
  "map_of (senderMap scenario_adapter) ''android'' = Some SendToGCM"
  by (simp_all add: scenario_adapter_def)

lemma scenario_send:
  "snd (send L sns_accepting scenario_adapter d (InstallationArray scenario_installations))
     = (fst (sendToSNS L sns_accepting (generateiOSPayload L d True) [ios_a, ios_unbundled]
               (Some ''app/ios-a''))
        @ fst (sendToSNS L sns_accepting (generateAndroidPayload L d None None) [android_1]
               (Some ''app/android'')),
        Inr (Resolved None))"
proof -
  have ios: "call_sender L sns_accepting scenario_adapter d ''ios'' [ios_a, ios_unbundled]
      = (fst (sendToSNS L sns_accepting (generateiOSPayload L d True) [ios_a, ios_unbundled]
               (Some ''app/ios-a'')), Inr ())"
    by (simp add: call_sender_def scenario_apns scenario_senders)
  have android: "call_sender L sns_accepting scenario_adapter d ''android'' [android_1]
      = (fst (sendToSNS L sns_accepting (generateAndroidPayload L d None None) [android_1]
               (Some ''app/android'')), Inr ())"
    by (simp add: call_sender_def scenario_gcm scenario_senders)
  show ?thesis
    by (simp add: send_def scenario_classified ios android)
qed

text \<open>
  Claim C1 says that the promise of \<^verbatim>\<open>send\<close> settles after every per-device publish and
  resolves to the collection of outcomes, three of them in the scenario. In the scenario
  the three publish requests are issued, yet the promise resolves with \<^verbatim>\<open>undefined\<close>:
  their outcomes are never collected.
\<close>

theorem send_scenario_yields_no_outcomes:
  "snd (snd (send L sns_accepting scenario_adapter d (InstallationArray scenario_installations)))
       = Inr (Resolved None)
   \<and> length (filter is_publish
        (fst (snd (send L sns_accepting scenario_adapter d (InstallationArray scenario_installations)))))
       = 3"
  by (simp add: scenario_send scenario_ios_group scenario_android_group)

end
